theory Spec2Isabelle
  imports Complex_Main
begin

section \<open>The transaction history page (src/pages/TransactionHistory.tsx)\<close>

text \<open>
  The page is one React function component. Its model has three parts: the data it holds
  (the \<open>Transaction\<close> rows and the three state cells), the two asynchronous handlers
  \<open>checkUser\<close> and \<open>fetchTransactions\<close> as state-passing functions that also return the
  list of effects they performed, and the element tree the component returns.

  A JavaScript \<open>number\<close> is kept as a type parameter \<open>'n\<close> with nothing but \<open>+\<close> and
  \<open>0\<close> on it: no law of arithmetic is assumed, so every statement below holds for IEEE
  doubles as well as for exact decimals. The library functions the component calls
  (\<open>Number.prototype.toFixed\<close>, the date formatter of date-fns, the backend behind the
  Supabase client) are parameters.
\<close>

subsection \<open>Data model\<close>

record food_item =
  name :: string

text \<open>Lines 12-25. The field \<open>id\<close> is called \<open>id_tx\<close>: \<open>id\<close> is the identity of HOL.\<close>

record 'n Transaction =
  id_tx :: string
  buyer_email :: string
  buyer_note :: "string option"
  item_price :: 'n
  service_fee :: 'n
  total_amount :: 'n
  currency :: string
  status :: string
  created_at :: string
  food_items :: "food_item option"

text \<open>Of the Supabase \<open>User\<close> and session objects the page reads \<open>session.user.id\<close> only.\<close>

record User =
  id_user :: string

record Session =
  session_user :: User

text \<open>Lines 29-31: the three state cells, with their initial values.\<close>

record 'n page_state =
  user :: "User option"
  transactions :: "'n Transaction list"
  isLoading :: bool

definition initial_state :: "'n page_state" where
  "initial_state = \<lparr>user = None, transactions = [], isLoading = True\<rparr>"

subsection \<open>The read request and the effects of the handlers\<close>

text \<open>
  The query builder of lines 51-59 accumulates a request: the relation, the argument of
  \<open>select\<close>, the equality filters in the order they were added, and the sort keys with
  their \<open>ascending\<close> flag.
\<close>

record query =
  relation :: string
  columns :: string
  filters :: "(string \<times> string) list"
  ordering :: "(string \<times> bool) list"

definition from_table :: "string \<Rightarrow> query" where
  "from_table t = \<lparr>relation = t, columns = [], filters = [], ordering = []\<rparr>"

definition select_cols :: "string \<Rightarrow> query \<Rightarrow> query" where
  "select_cols c q = q\<lparr>columns := c\<rparr>"

definition eq_filter :: "string \<Rightarrow> string \<Rightarrow> query \<Rightarrow> query" where
  "eq_filter col v q = q\<lparr>filters := filters q @ [(col, v)]\<rparr>"

definition order_by :: "string \<Rightarrow> bool \<Rightarrow> query \<Rightarrow> query" where
  "order_by col asc q = q\<lparr>ordering := ordering q @ [(col, asc)]\<rparr>"

text \<open>
  The template literal of lines 53-56, character by character: a line feed, eight blanks,
  \<open>*,\<close>, a line feed, eight blanks, the embedded resource, a line feed and six blanks.
\<close>

definition select_literal :: string where
  "select_literal =
     [CHR 0x0A] @ replicate 8 CHR '' '' @ ''*,'' @
     [CHR 0x0A] @ replicate 8 CHR '' '' @ ''food_items:food_item_id (name)'' @
     [CHR 0x0A] @ replicate 6 CHR '' ''"

text \<open>The client sends the column list with its white space removed (nothing is quoted here).\<close>

definition is_space :: "char \<Rightarrow> bool" where
  "is_space c = (c = CHR '' '' \<or> c = CHR 0x0A \<or> c = CHR 0x09 \<or> c = CHR 0x0D)"

definition cleaned_columns :: "query \<Rightarrow> string" where
  "cleaned_columns q = filter (\<lambda>c. \<not> is_space c) (columns q)"

text \<open>The result of the awaited query: \<open>{ data, error }\<close>, each of them possibly null.\<close>

record ('n, 'e) response =
  data :: "'n Transaction list option"
  error :: "'e option"

datatype 'e effect =
    Request query
  | Navigate string
  | ToastError string
  | ConsoleError 'e

fun is_request :: "'e effect \<Rightarrow> bool" where
  "is_request (Request q) = True"
| "is_request (Navigate p) = False"
| "is_request (ToastError m) = False"
| "is_request (ConsoleError e) = False"

subsection \<open>fetchTransactions and checkUser\<close>

definition transactions_query :: "string \<Rightarrow> query" where
  "transactions_query userId =
     order_by ''created_at'' False
       (eq_filter ''status'' ''completed''
         (eq_filter ''recipient_id'' userId
           (select_cols select_literal (from_table ''transactions''))))"

text \<open>
  Lines 49-68. \<open>backend\<close> answers the request. \<open>if (error)\<close> tests an object or null;
  \<open>data || []\<close> replaces a null \<open>data\<close> only (an array, even an empty one, is truthy).
\<close>

definition fetchTransactions ::
  "(query \<Rightarrow> ('n, 'e) response) \<Rightarrow> string \<Rightarrow> 'n page_state \<Rightarrow> 'e effect list \<times> 'n page_state" where
  "fetchTransactions backend userId st =
     (let st1 = st\<lparr>isLoading := True\<rparr>;
          q = transactions_query userId;
          r = backend q
      in case error r of
           Some e \<Rightarrow>
             ([Request q, ToastError ''Failed to load transaction history'', ConsoleError e],
              st1\<lparr>isLoading := False\<rparr>)
         | None \<Rightarrow>
             ([Request q],
              st1\<lparr>transactions := (case data r of None \<Rightarrow> [] | Some rows \<Rightarrow> rows),
                  isLoading := False\<rparr>))"

text \<open>Lines 37-47. \<open>session\<close> is what \<open>supabase.auth.getSession()\<close> resolved to.\<close>

definition checkUser ::
  "(query \<Rightarrow> ('n, 'e) response) \<Rightarrow> Session option \<Rightarrow> 'n page_state \<Rightarrow> 'e effect list \<times> 'n page_state" where
  "checkUser backend session st =
     (case session of
        None \<Rightarrow> ([Navigate ''/auth''], st)
      | Some s \<Rightarrow> fetchTransactions backend (id_user (session_user s)) (st\<lparr>user := Some (session_user s)\<rparr>))"

subsection \<open>getCurrencySymbol and getTotalReceived\<close>

text \<open>
  Lines 70-75. \<open>symbols\<close> is an object literal, so \<open>symbols[currency]\<close> is a property
  read: it finds the four own properties and, failing that, the properties every object
  inherits from \<open>Object.prototype\<close>. An inherited member is a function (or, for
  \<open>__proto__\<close>, the prototype object): truthy, and not a string. \<open>JInherited p\<close> stands
  for the inherited member named \<open>p\<close>.
\<close>

datatype js_value = JString string | JInherited string

fun truthy :: "js_value \<Rightarrow> bool" where
  "truthy (JString s) = (s \<noteq> [])"
| "truthy (JInherited p) = True"

text \<open>The symbols as UTF-8: the euro sign, the pound sign and the naira sign.\<close>

definition symbols :: "(string \<times> string) list" where
  "symbols =
     [(''USD'', ''$''),
      (''EUR'', [CHR 0xE2, CHR 0x82, CHR 0xAC]),
      (''GBP'', [CHR 0xC2, CHR 0xA3]),
      (''NGN'', [CHR 0xE2, CHR 0x82, CHR 0xA6])]"

definition object_prototype_keys :: "string list" where
  "object_prototype_keys =
     [''constructor'', ''hasOwnProperty'', ''isPrototypeOf'', ''propertyIsEnumerable'',
      ''toLocaleString'', ''toString'', ''valueOf'', ''__proto__'',
      ''__defineGetter__'', ''__defineSetter__'', ''__lookupGetter__'', ''__lookupSetter__'']"

definition get_property :: "string \<Rightarrow> js_value option" where
  "get_property k =
     (case map_of symbols k of
        Some s \<Rightarrow> Some (JString s)
      | None \<Rightarrow> if k \<in> set object_prototype_keys then Some (JInherited k) else None)"

definition getCurrencySymbol :: "string \<Rightarrow> js_value" where
  "getCurrencySymbol c =
     (case get_property c of
        Some v \<Rightarrow> if truthy v then v else JString ''$''
      | None \<Rightarrow> JString ''$'')"

text \<open>Lines 77-79: \<open>reduce\<close> folds from the left, starting at \<open>0\<close>.\<close>

definition getTotalReceived :: "('n::{plus,zero}) Transaction list \<Rightarrow> 'n" where
  "getTotalReceived txs = foldl (\<lambda>sum tx. sum + item_price tx) 0 txs"

subsection \<open>The element tree\<close>

text \<open>
  Line 124: \<open>transactions[0]?.currency || "USD"\<close>. The optional chain gives undefined on
  the empty list, and \<open>||\<close> also replaces the empty string.
\<close>

definition summary_currency :: "'n Transaction list \<Rightarrow> string" where
  "summary_currency txs =
     (case txs of
        [] \<Rightarrow> ''USD''
      | tx # rest \<Rightarrow> if currency tx = [] then ''USD'' else currency tx)"

text \<open>Line 162: \<open>transaction.food_items?.name || "Gift Item"\<close>.\<close>

definition card_title :: "'n Transaction \<Rightarrow> string" where
  "card_title tx =
     (case food_items tx of
        None \<Rightarrow> ''Gift Item''
      | Some fi \<Rightarrow> if name fi = [] then ''Gift Item'' else name fi)"

text \<open>
  Lines 193-201: \<open>transaction.buyer_note && (...)\<close> is its left operand when that is
  falsy (null, or the empty string) and the message block otherwise. React draws nothing
  for null and for the empty string. The block's paragraph is the note between two
  quotation marks.
\<close>

datatype note_child = NullChild | EmptyText | NoteBlock string

definition quoted :: "string \<Rightarrow> string" where
  "quoted s = [CHR 0x22] @ s @ [CHR 0x22]"

definition note_slot :: "string option \<Rightarrow> note_child" where
  "note_slot n =
     (case n of
        None \<Rightarrow> NullChild
      | Some s \<Rightarrow> if s = [] then EmptyText else NoteBlock (quoted s))"

record card =
  key :: string
  title :: string
  badge :: string
  price_symbol :: js_value
  price :: string
  fee_symbol :: js_value
  fee :: string
  buyer :: string
  date_text :: string
  note_child :: note_child

text \<open>
  The children of the page: the header (its back button leads to the route it carries),
  the summary card with the count, the symbol and the formatted total, and one of the
  three bodies.
\<close>

datatype node =
    Header string
  | Summary nat js_value string
  | Spinner
  | EmptyState string
  | TransactionList "card list"

datatype render_error = RangeError

text \<open>
  Lines 155-206. \<open>formatDate s\<close> stands for \<open>format(new Date(s), "PPP 'at' p")\<close>, which
  throws a RangeError when the string is not a date: \<open>None\<close>.
\<close>

definition render_card ::
  "('n \<Rightarrow> nat \<Rightarrow> string) \<Rightarrow> (string \<Rightarrow> string option) \<Rightarrow> 'n Transaction \<Rightarrow> render_error + card" where
  "render_card toFixed formatDate tx =
     (case formatDate (created_at tx) of
        None \<Rightarrow> Inl RangeError
      | Some d \<Rightarrow>
          Inr \<lparr>key = id_tx tx,
               title = card_title tx,
               badge = status tx,
               price_symbol = getCurrencySymbol (currency tx),
               price = toFixed (item_price tx) 2,
               fee_symbol = getCurrencySymbol (currency tx),
               fee = toFixed (service_fee tx) 2,
               buyer = buyer_email tx,
               date_text = d,
               note_child = note_slot (buyer_note tx)\<rparr>)"

text \<open>\<open>transactions.map\<close>: the cards in order; the first exception ends the rendering.\<close>

fun render_cards ::
  "('n \<Rightarrow> nat \<Rightarrow> string) \<Rightarrow> (string \<Rightarrow> string option) \<Rightarrow> 'n Transaction list \<Rightarrow> render_error + card list" where
  "render_cards toFixed formatDate [] = Inr []"
| "render_cards toFixed formatDate (tx # txs) =
     (case render_card toFixed formatDate tx of
        Inl e \<Rightarrow> Inl e
      | Inr c \<Rightarrow>
          (case render_cards toFixed formatDate txs of
             Inl e \<Rightarrow> Inl e
           | Inr cs \<Rightarrow> Inr (c # cs)))"

text \<open>Lines 107-130: the summary card stands before the conditional, outside it.\<close>

definition summary_card :: "('n \<Rightarrow> nat \<Rightarrow> string) \<Rightarrow> ('n::{plus,zero}) Transaction list \<Rightarrow> node" where
  "summary_card toFixed txs =
     Summary (length txs) (getCurrencySymbol (summary_currency txs)) (toFixed (getTotalReceived txs) 2)"

text \<open>Lines 133-209: the conditional.\<close>

definition render_body ::
  "('n \<Rightarrow> nat \<Rightarrow> string) \<Rightarrow> (string \<Rightarrow> string option) \<Rightarrow> 'n page_state \<Rightarrow> render_error + node" where
  "render_body toFixed formatDate st =
     (if isLoading st then Inr Spinner
      else if length (transactions st) = 0 then Inr (EmptyState ''/dashboard'')
      else (case render_cards toFixed formatDate (transactions st) of
              Inl e \<Rightarrow> Inl e
            | Inr cs \<Rightarrow> Inr (TransactionList cs)))"

definition render ::
  "('n \<Rightarrow> nat \<Rightarrow> string) \<Rightarrow> (string \<Rightarrow> string option) \<Rightarrow> ('n::{plus,zero}) page_state \<Rightarrow> render_error + node list" where
  "render toFixed formatDate st =
     (case render_body toFixed formatDate st of
        Inl e \<Rightarrow> Inl e
      | Inr b \<Rightarrow> Inr [Header ''/dashboard'', summary_card toFixed (transactions st), b])"

fun is_summary :: "node \<Rightarrow> bool" where
  "is_summary (Summary n s t) = True"
| "is_summary (Header p) = False"
| "is_summary Spinner = False"
| "is_summary (EmptyState p) = False"
| "is_summary (TransactionList cs) = False"

subsection \<open>An exact decimal instance of the number operations\<close>

text \<open>
  For computing examples the numbers are rationals and \<open>toFixed\<close> is the algorithm of
  ECMAScript (Number.prototype.toFixed, the steps for a finite value below \<open>10^21\<close>): the
  sign, then the integer \<open>n\<close> nearest to \<open>x * 10^f\<close> (the larger of two), its digits
  padded with zeros to \<open>f + 1\<close> places, and the point before the last \<open>f\<close> digits.
\<close>

fun digits :: "nat \<Rightarrow> string" where
  "digits n =
     (if n < 10 then [''0123456789'' ! n]
      else digits (n div 10) @ [''0123456789'' ! (n mod 10)])"

definition toFixed_decimal :: "rat \<Rightarrow> nat \<Rightarrow> string" where
  "toFixed_decimal x f =
     (let s = (if x < 0 then ''-'' else []);
          n = nat \<lfloor>\<bar>x\<bar> * 10 ^ f + 1 / 2\<rfloor>;
          m = digits n;
          m' = (if length m \<le> f then replicate (f + 1 - length m) CHR ''0'' @ m else m);
          k = length m'
      in if f = 0 then s @ m
         else s @ take (k - f) m' @ ''.'' @ drop (k - f) m')"

declare digits.simps [simp del]

section \<open>Properties\<close>

subsection \<open>Auxiliary facts\<close>

lemma foldl_plus_sum_list:
  "foldl (+) (a::'m::monoid_add) xs = a + sum_list xs"
  by (induction xs arbitrary: a) (simp_all add: add.assoc)

lemma getTotalReceived_foldl:
  "getTotalReceived txs = foldl (+) 0 (map item_price txs)"
  by (simp add: getTotalReceived_def foldl_map)

lemma render_Inr:
  "render tf fmt st = Inr v \<Longrightarrow>
     \<exists>b. render_body tf fmt st = Inr b
       \<and> v = [Header ''/dashboard'', summary_card tf (transactions st), b]"
  by (auto simp: render_def split: sum.splits)

lemma render_summary:
  "render tf fmt st = Inr v \<Longrightarrow> v ! 1 = summary_card tf (transactions st)"
  by (auto dest: render_Inr)

text \<open>
  The page is drawn whenever every creation time is a date: the only exception the
  component can raise comes from the date formatter.
\<close>

lemma render_cards_succeeds:
  "\<forall>tx \<in> set txs. fmt (created_at tx) \<noteq> None \<Longrightarrow>
     \<exists>cs. render_cards tf fmt txs = Inr cs \<and> length cs = length txs"
proof (induction txs)
  case Nil
  then show ?case by simp
next
  case (Cons tx txs)
  then obtain cs where cs: "render_cards tf fmt txs = Inr cs" "length cs = length txs"
    by auto
  from Cons.prems obtain d where "fmt (created_at tx) = Some d"
    by auto
  then obtain c where "render_card tf fmt tx = Inr c"
    by (simp add: render_card_def)
  with cs show ?case by simp
qed

lemma render_cards_length:
  "render_cards tf fmt txs = Inr cs \<Longrightarrow> length cs = length txs"
  by (induction txs arbitrary: cs) (auto split: sum.splits)

lemma render_succeeds:
  "\<forall>tx \<in> set (transactions st). fmt (created_at tx) \<noteq> None \<Longrightarrow> \<exists>v. render tf fmt st = Inr v"
  using render_cards_succeeds [of "transactions st" fmt tf]
  by (auto simp: render_def render_body_def)

lemma getCurrencySymbol_empty: "getCurrencySymbol [] = JString ''$''"
  by (simp add: getCurrencySymbol_def get_property_def symbols_def object_prototype_keys_def)

lemma getCurrencySymbol_USD: "getCurrencySymbol ''USD'' = JString ''$''"
  by (simp add: getCurrencySymbol_def get_property_def symbols_def)

lemma summary_symbol_first:
  "getCurrencySymbol (summary_currency (tx # rest)) = getCurrencySymbol (currency tx)"
  by (simp add: summary_currency_def getCurrencySymbol_empty getCurrencySymbol_USD)

lemma summary_symbol_nil:
  "getCurrencySymbol (summary_currency []) = JString ''$''"
  by (simp add: summary_currency_def getCurrencySymbol_USD)

text \<open>The decimal \<open>toFixed\<close> with two fraction digits ends in a point and two characters.\<close>

lemma toFixed_decimal_two_places:
  "\<exists>a b. toFixed_decimal x 2 = a @ ''.'' @ b \<and> length b = 2"
proof -
  define m where "m = digits (nat \<lfloor>\<bar>x\<bar> * 10 ^ 2 + 1 / 2\<rfloor>)"
  define m' where "m' = (if length m \<le> 2 then replicate (3 - length m) CHR ''0'' @ m else m)"
  have l: "3 \<le> length m'"
    by (simp add: m'_def)
  have "toFixed_decimal x 2 =
      ((if x < 0 then ''-'' else []) @ take (length m' - 2) m') @ ''.'' @ drop (length m' - 2) m'"
    by (simp add: toFixed_decimal_def Let_def m_def m'_def)
  moreover from l have "length (drop (length m' - 2) m') = 2"
    by simp
  ultimately show ?thesis by blast
qed

subsection \<open>The three bodies and the summary card\<close>

text \<open>
  C1, as the code has it. The body of the page is one of three, chosen in this order: the
  spinner while loading, the empty state when loaded with no transaction, the list of
  cards otherwise (unless a creation time fails to format, which ends the rendering).
  The three are mutually exclusive. The summary card with the count and the total is
  the second child of the page in every one of them, not only above the list of cards.
  After a fetch that succeeded with zero rows the empty state is drawn.
\<close>

theorem render_branches:
  "(isLoading st \<longrightarrow>
      render tf fmt st = Inr [Header ''/dashboard'', summary_card tf (transactions st), Spinner])
   \<and> (\<not> isLoading st \<and> transactions st = [] \<longrightarrow>
      render tf fmt st = Inr [Header ''/dashboard'', summary_card tf [], EmptyState ''/dashboard''])
   \<and> (\<not> isLoading st \<and> transactions st \<noteq> [] \<longrightarrow>
      render tf fmt st =
        (case render_cards tf fmt (transactions st) of
           Inl e \<Rightarrow> Inl e
         | Inr cs \<Rightarrow> Inr [Header ''/dashboard'', summary_card tf (transactions st), TransactionList cs]))
   \<and> (render tf fmt st = Inr v \<longrightarrow>
        length v = 3 \<and> v ! 1 = summary_card tf (transactions st) \<and> is_summary (v ! 1)
        \<and> (v ! 2 = Spinner \<longleftrightarrow> isLoading st)
        \<and> (v ! 2 = EmptyState ''/dashboard'' \<longleftrightarrow> \<not> isLoading st \<and> transactions st = [])
        \<and> ((\<exists>cs. v ! 2 = TransactionList cs) \<longleftrightarrow> \<not> isLoading st \<and> transactions st \<noteq> []))
   \<and> (error (backend (transactions_query uid)) = None
        \<and> data (backend (transactions_query uid)) = Some [] \<longrightarrow>
        render tf fmt (snd (fetchTransactions backend uid st)) =
          Inr [Header ''/dashboard'', summary_card tf [], EmptyState ''/dashboard''])"
proof -
  have a: "isLoading st \<Longrightarrow>
      render tf fmt st = Inr [Header ''/dashboard'', summary_card tf (transactions st), Spinner]"
    by (simp add: render_def render_body_def)
  have b: "\<not> isLoading st \<Longrightarrow> transactions st = [] \<Longrightarrow>
      render tf fmt st = Inr [Header ''/dashboard'', summary_card tf [], EmptyState ''/dashboard'']"
    by (simp add: render_def render_body_def)
  have c: "\<not> isLoading st \<Longrightarrow> transactions st \<noteq> [] \<Longrightarrow>
      render tf fmt st =
        (case render_cards tf fmt (transactions st) of
           Inl e \<Rightarrow> Inl e
         | Inr cs \<Rightarrow> Inr [Header ''/dashboard'', summary_card tf (transactions st), TransactionList cs])"
    by (simp add: render_def render_body_def split: sum.splits)
  have d: "length v = 3 \<and> v ! 1 = summary_card tf (transactions st) \<and> is_summary (v ! 1)
        \<and> (v ! 2 = Spinner \<longleftrightarrow> isLoading st)
        \<and> (v ! 2 = EmptyState ''/dashboard'' \<longleftrightarrow> \<not> isLoading st \<and> transactions st = [])
        \<and> ((\<exists>cs. v ! 2 = TransactionList cs) \<longleftrightarrow> \<not> isLoading st \<and> transactions st \<noteq> [])"
    if r: "render tf fmt st = Inr v"
  proof -
    from render_Inr [OF r] obtain b where
      b: "render_body tf fmt st = Inr b" and
      v: "v = [Header ''/dashboard'', summary_card tf (transactions st), b]"
      by blast
    have s: "is_summary (summary_card tf (transactions st))"
      by (simp add: summary_card_def)
    from b have k: "(b = Spinner \<longleftrightarrow> isLoading st)
        \<and> (b = EmptyState ''/dashboard'' \<longleftrightarrow> \<not> isLoading st \<and> transactions st = [])
        \<and> ((\<exists>cs. b = TransactionList cs) \<longleftrightarrow> \<not> isLoading st \<and> transactions st \<noteq> [])"
      by (auto simp: render_body_def split: if_splits sum.splits)
    from v s k show ?thesis by simp
  qed
  have e: "render tf fmt (snd (fetchTransactions backend uid st)) =
          Inr [Header ''/dashboard'', summary_card tf [], EmptyState ''/dashboard'']"
    if "error (backend (transactions_query uid)) = None"
      and "data (backend (transactions_query uid)) = Some []"
    using that by (simp add: fetchTransactions_def Let_def render_def render_body_def)
  from a b c d e show ?thesis by blast
qed

theorem render_branches_witness:
  "render toFixed_decimal Some \<lparr>user = None, transactions = [], isLoading = True\<rparr>
     = Inr [Header ''/dashboard'', Summary 0 (JString ''$'') ''0.00'', Spinner]
   \<and> render toFixed_decimal Some \<lparr>user = None, transactions = [], isLoading = False\<rparr>
     = Inr [Header ''/dashboard'', Summary 0 (JString ''$'') ''0.00'', EmptyState ''/dashboard'']
   \<and> render toFixed_decimal (\<lambda>s. None)
       \<lparr>user = None,
        transactions =
          [\<lparr>id_tx = ''t1'', buyer_email = ''a@b.c'', buyer_note = None, item_price = 25 / 2,
            service_fee = 3 / 2, total_amount = 14, currency = ''NGN'', status = ''completed'',
            created_at = ''yesterday'', food_items = None\<rparr>],
        isLoading = False\<rparr>
     = Inl RangeError
   \<and> render toFixed_decimal Some
       (snd (fetchTransactions (\<lambda>q. \<lparr>data = Some [], error = None :: string option\<rparr>) ''u1''
              \<lparr>user = Some \<lparr>id_user = ''u1''\<rparr>, transactions = [], isLoading = True\<rparr>))
     = Inr [Header ''/dashboard'', Summary 0 (JString ''$'') ''0.00'', EmptyState ''/dashboard'']"
proof -
  let ?tx = "\<lparr>id_tx = ''t1'', buyer_email = ''a@b.c'', buyer_note = None, item_price = 25 / 2 :: rat,
            service_fee = 3 / 2, total_amount = 14, currency = ''NGN'', status = ''completed'',
            created_at = ''yesterday'', food_items = None\<rparr>"
  let ?backend = "\<lambda>q :: query. \<lparr>data = Some ([] :: rat Transaction list), error = None :: string option\<rparr>"
  let ?s1 = "\<lparr>user = None, transactions = [] :: rat Transaction list, isLoading = True\<rparr>"
  let ?s2 = "\<lparr>user = None, transactions = [] :: rat Transaction list, isLoading = False\<rparr>"
  let ?s3 = "\<lparr>user = None, transactions = [?tx], isLoading = False\<rparr>"
  let ?s4 = "\<lparr>user = Some \<lparr>id_user = ''u1''\<rparr>, transactions = [] :: rat Transaction list, isLoading = True\<rparr>"
  have z: "summary_card toFixed_decimal [] = Summary 0 (JString ''$'') ''0.00''"
    by code_simp
  have a: "render toFixed_decimal Some ?s1
     = Inr [Header ''/dashboard'', Summary 0 (JString ''$'') ''0.00'', Spinner]"
    using render_branches [of ?s1 toFixed_decimal Some "[]" ?backend "''u1''"]
    by (simp add: z)
  have b: "render toFixed_decimal Some ?s2
     = Inr [Header ''/dashboard'', Summary 0 (JString ''$'') ''0.00'', EmptyState ''/dashboard'']"
    using render_branches [of ?s2 toFixed_decimal Some "[]" ?backend "''u1''"]
    by (simp add: z)
  have c: "render toFixed_decimal (\<lambda>s. None) ?s3 = Inl RangeError"
    using render_branches [of ?s3 toFixed_decimal "\<lambda>s. None" "[]" ?backend "''u1''"]
    by (simp add: render_card_def)
  have d: "render toFixed_decimal Some (snd (fetchTransactions ?backend ''u1'' ?s4))
     = Inr [Header ''/dashboard'', Summary 0 (JString ''$'') ''0.00'', EmptyState ''/dashboard'']"
    using render_branches [of ?s4 toFixed_decimal Some "[]" ?backend "''u1''"]
    by (simp add: z)
  from a b c d show ?thesis by blast
qed

text \<open>
  The statement with the summary card confined to the list of cards fails: in the
  initial state, which is loading and holds no transaction, the page shows the spinner
  and, above it, the summary card with count 0 and total 0.00.
\<close>

theorem summary_while_loading_counterexample:
  "isLoading \<lparr>user = None, transactions = [] :: rat Transaction list, isLoading = True\<rparr>
   \<and> render toFixed_decimal Some \<lparr>user = None, transactions = [], isLoading = True\<rparr>
       = Inr [Header ''/dashboard'', Summary 0 (JString ''$'') ''0.00'', Spinner]
   \<and> is_summary (Summary 0 (JString ''$'') ''0.00'')"
  by code_simp

subsection \<open>The total value received\<close>

text \<open>
  C2. Whenever the page is drawn, the total of the summary card is \<open>toFixed(2)\<close> of the
  item prices added from the left, starting at 0. Service fees and total amounts play no
  part in it. Where addition is associative with unit 0 the total is the sum of the item
  prices. With no transaction the total is 0, which the decimal \<open>toFixed\<close> prints as
  0.00.
\<close>

theorem total_value_received:
  "(render tf fmt st = Inr v \<longrightarrow>
      v ! 1 = Summary (length (transactions st))
                (getCurrencySymbol (summary_currency (transactions st)))
                (tf (foldl (+) 0 (map item_price (transactions st))) 2))
   \<and> getTotalReceived (map (\<lambda>tx. tx\<lparr>service_fee := g tx, total_amount := h tx\<rparr>) (transactions st))
       = getTotalReceived (transactions st)
   \<and> getTotalReceived (txs :: ('m::monoid_add) Transaction list) = sum_list (map item_price txs)
   \<and> getTotalReceived ([] :: ('k::{plus,zero}) Transaction list) = 0
   \<and> (render toFixed_decimal fmt' \<lparr>user = u, transactions = [], isLoading = l\<rparr> = Inr w \<longrightarrow>
        w ! 1 = Summary 0 (JString ''$'') ''0.00'')"
proof -
  have a: "v ! 1 = Summary (length (transactions st))
                (getCurrencySymbol (summary_currency (transactions st)))
                (tf (foldl (+) 0 (map item_price (transactions st))) 2)"
    if "render tf fmt st = Inr v"
    using render_summary [OF that]
    by (simp add: summary_card_def getTotalReceived_foldl)
  have b: "getTotalReceived (map (\<lambda>tx. tx\<lparr>service_fee := g tx, total_amount := h tx\<rparr>) (transactions st))
       = getTotalReceived (transactions st)"
    by (simp add: getTotalReceived_foldl comp_def)
  have c: "getTotalReceived txs = sum_list (map item_price txs)"
    by (simp add: getTotalReceived_foldl foldl_plus_sum_list)
  have n: "getTotalReceived ([] :: ('k::{plus,zero}) Transaction list) = 0"
    by (simp add: getTotalReceived_def)
  have z: "toFixed_decimal 0 2 = ''0.00''"
    by code_simp
  have d: "w ! 1 = Summary 0 (JString ''$'') ''0.00''"
    if "render toFixed_decimal fmt' \<lparr>user = u, transactions = [], isLoading = l\<rparr> = Inr w"
    using render_summary [OF that]
    by (simp add: summary_card_def getTotalReceived_def summary_symbol_nil z)
  from a b c n d show ?thesis by blast
qed

theorem total_value_received_witness:
  "render toFixed_decimal Some
      \<lparr>user = None,
       transactions =
         [\<lparr>id_tx = ''t1'', buyer_email = ''a@b.c'', buyer_note = None, item_price = 25 / 2,
           service_fee = 3 / 2, total_amount = 14, currency = ''NGN'', status = ''completed'',
           created_at = ''2024-01-05T10:00:00Z'', food_items = Some \<lparr>name = ''Jollof Rice''\<rparr>\<rparr>,
          \<lparr>id_tx = ''t2'', buyer_email = ''d@e.f'', buyer_note = None, item_price = 1 / 4,
           service_fee = 1, total_amount = 5 / 4, currency = ''EUR'', status = ''completed'',
           created_at = ''2024-01-04T10:00:00Z'', food_items = None\<rparr>],
       isLoading = False\<rparr>
     = Inr [Header ''/dashboard'',
            Summary 2 (JString [CHR 0xE2, CHR 0x82, CHR 0xA6]) ''12.75'',
            TransactionList
              [\<lparr>key = ''t1'', title = ''Jollof Rice'', badge = ''completed'',
                price_symbol = JString [CHR 0xE2, CHR 0x82, CHR 0xA6], price = ''12.50'',
                fee_symbol = JString [CHR 0xE2, CHR 0x82, CHR 0xA6], fee = ''1.50'',
                buyer = ''a@b.c'', date_text = ''2024-01-05T10:00:00Z'', note_child = NullChild\<rparr>,
               \<lparr>key = ''t2'', title = ''Gift Item'', badge = ''completed'',
                price_symbol = JString [CHR 0xE2, CHR 0x82, CHR 0xAC], price = ''0.25'',
                fee_symbol = JString [CHR 0xE2, CHR 0x82, CHR 0xAC], fee = ''1.00'',
                buyer = ''d@e.f'', date_text = ''2024-01-04T10:00:00Z'', note_child = NullChild\<rparr>]]
   \<and> Summary 2 (JString [CHR 0xE2, CHR 0x82, CHR 0xA6]) ''12.75''
     = Summary 2 (getCurrencySymbol ''NGN'') (toFixed_decimal (0 + 25 / 2 + 1 / 4) 2)"
proof -
  let ?st = "\<lparr>user = None,
       transactions =
         [\<lparr>id_tx = ''t1'', buyer_email = ''a@b.c'', buyer_note = None, item_price = 25 / 2 :: rat,
           service_fee = 3 / 2, total_amount = 14, currency = ''NGN'', status = ''completed'',
           created_at = ''2024-01-05T10:00:00Z'', food_items = Some \<lparr>name = ''Jollof Rice''\<rparr>\<rparr>,
          \<lparr>id_tx = ''t2'', buyer_email = ''d@e.f'', buyer_note = None, item_price = 1 / 4,
           service_fee = 1, total_amount = 5 / 4, currency = ''EUR'', status = ''completed'',
           created_at = ''2024-01-04T10:00:00Z'', food_items = None\<rparr>],
       isLoading = False\<rparr>"
  let ?v = "[Header ''/dashboard'',
            Summary 2 (JString [CHR 0xE2, CHR 0x82, CHR 0xA6]) ''12.75'',
            TransactionList
              [\<lparr>key = ''t1'', title = ''Jollof Rice'', badge = ''completed'',
                price_symbol = JString [CHR 0xE2, CHR 0x82, CHR 0xA6], price = ''12.50'',
                fee_symbol = JString [CHR 0xE2, CHR 0x82, CHR 0xA6], fee = ''1.50'',
                buyer = ''a@b.c'', date_text = ''2024-01-05T10:00:00Z'', note_child = NullChild\<rparr>,
               \<lparr>key = ''t2'', title = ''Gift Item'', badge = ''completed'',
                price_symbol = JString [CHR 0xE2, CHR 0x82, CHR 0xAC], price = ''0.25'',
                fee_symbol = JString [CHR 0xE2, CHR 0x82, CHR 0xAC], fee = ''1.00'',
                buyer = ''d@e.f'', date_text = ''2024-01-04T10:00:00Z'', note_child = NullChild\<rparr>]]"
  have r: "render toFixed_decimal Some ?st = Inr ?v"
    by code_simp
  from total_value_received [of toFixed_decimal Some ?st ?v, THEN conjunct1] r
  have "?v ! 1 = Summary 2 (getCurrencySymbol ''NGN'') (toFixed_decimal (0 + 25 / 2 + 1 / 4) 2)"
    by (simp add: summary_currency_def)
  with r show ?thesis by simp
qed

subsection \<open>The currency symbol\<close>

text \<open>
  What the lookup does: the four codes have their symbols, a member inherited from
  \<open>Object.prototype\<close> is returned as it is, and every other code gives the dollar sign.
  The summary card takes the symbol of the first transaction's code.
\<close>

lemma getCurrencySymbol_known:
  "getCurrencySymbol ''USD'' = JString ''$''
   \<and> getCurrencySymbol ''EUR'' = JString [CHR 0xE2, CHR 0x82, CHR 0xAC]
   \<and> getCurrencySymbol ''GBP'' = JString [CHR 0xC2, CHR 0xA3]
   \<and> getCurrencySymbol ''NGN'' = JString [CHR 0xE2, CHR 0x82, CHR 0xA6]"
  by (simp add: getCurrencySymbol_def get_property_def symbols_def)

lemma getCurrencySymbol_fallback:
  "c \<notin> {''USD'', ''EUR'', ''GBP'', ''NGN''} \<Longrightarrow> c \<notin> set object_prototype_keys \<Longrightarrow>
     getCurrencySymbol c = JString ''$''"
  by (simp add: getCurrencySymbol_def get_property_def symbols_def)

lemma getCurrencySymbol_inherited:
  "c \<in> set object_prototype_keys \<Longrightarrow> getCurrencySymbol c = JInherited c"
  by (auto simp: getCurrencySymbol_def get_property_def symbols_def object_prototype_keys_def)

lemma summary_symbol:
  "summary_card tf txs =
     Summary (length txs)
       (case txs of [] \<Rightarrow> JString ''$'' | tx # rest \<Rightarrow> getCurrencySymbol (currency tx))
       (tf (getTotalReceived txs) 2)"
  by (cases txs) (simp_all add: summary_card_def summary_symbol_nil summary_symbol_first)

text \<open>
  C3, at the code \<open>constructor\<close>. The claim sends every code other than USD, EUR, GBP and
  NGN to the dollar sign. The property read \<open>symbols["constructor"]\<close> finds the
  constructor every object inherits, which is truthy, so \<open>|| "$"\<close> does not apply:
  \<open>getCurrencySymbol\<close> returns that inherited member and not the dollar sign.
\<close>

theorem getCurrencySymbol_constructor:
  "getCurrencySymbol ''constructor'' = JInherited ''constructor''
   \<and> getCurrencySymbol ''constructor'' \<noteq> JString ''$''"
  by (simp add: getCurrencySymbol_def get_property_def symbols_def object_prototype_keys_def)

subsection \<open>The note of a card\<close>

text \<open>
  C4, as the code has it. On every card that is drawn: a null note leaves the null
  child and an empty note leaves the empty string, both of which draw nothing, so the
  message block is omitted; a note that is a non-empty string gives the message block
  with that string, unchanged, between two quotation marks.
\<close>

theorem note_block_rendering:
  "render_card tf fmt tx = Inr c \<Longrightarrow>
     (buyer_note tx = None \<longrightarrow> note_child c = NullChild)
     \<and> (buyer_note tx = Some [] \<longrightarrow> note_child c = EmptyText)
     \<and> (\<forall>s. buyer_note tx = Some s \<and> s \<noteq> [] \<longrightarrow>
           note_child c = NoteBlock ([CHR 0x22] @ s @ [CHR 0x22]))"
  by (auto simp: render_card_def note_slot_def quoted_def split: option.splits)

theorem note_block_rendering_witness:
  "render_card toFixed_decimal Some
     \<lparr>id_tx = ''t1'', buyer_email = ''a@b.c'', buyer_note = Some ''Enjoy!'', item_price = 25 / 2,
      service_fee = 3 / 2, total_amount = 14, currency = ''NGN'', status = ''completed'',
      created_at = ''2024-01-05T10:00:00Z'', food_items = Some \<lparr>name = ''Jollof Rice''\<rparr>\<rparr>
   = Inr \<lparr>key = ''t1'', title = ''Jollof Rice'', badge = ''completed'',
           price_symbol = JString [CHR 0xE2, CHR 0x82, CHR 0xA6], price = ''12.50'',
           fee_symbol = JString [CHR 0xE2, CHR 0x82, CHR 0xA6], fee = ''1.50'',
           buyer = ''a@b.c'', date_text = ''2024-01-05T10:00:00Z'',
           note_child = NoteBlock ([CHR 0x22] @ ''Enjoy!'' @ [CHR 0x22])\<rparr>"
proof -
  let ?tx = "\<lparr>id_tx = ''t1'', buyer_email = ''a@b.c'', buyer_note = Some ''Enjoy!'',
      item_price = 25 / 2 :: rat,
      service_fee = 3 / 2, total_amount = 14, currency = ''NGN'', status = ''completed'',
      created_at = ''2024-01-05T10:00:00Z'', food_items = Some \<lparr>name = ''Jollof Rice''\<rparr>\<rparr>"
  let ?c = "\<lparr>key = ''t1'', title = ''Jollof Rice'', badge = ''completed'',
           price_symbol = JString [CHR 0xE2, CHR 0x82, CHR 0xA6], price = ''12.50'',
           fee_symbol = JString [CHR 0xE2, CHR 0x82, CHR 0xA6], fee = ''1.50'',
           buyer = ''a@b.c'', date_text = ''2024-01-05T10:00:00Z'',
           note_child = note_slot (Some ''Enjoy!'')\<rparr>"
  have r: "render_card toFixed_decimal Some ?tx = Inr ?c"
    by code_simp
  from note_block_rendering [OF r]
  have "note_child ?c = NoteBlock ([CHR 0x22] @ ''Enjoy!'' @ [CHR 0x22])"
    by simp
  with r show ?thesis by simp
qed

text \<open>
  The statement for every non-null note fails at the empty string: the note is not null,
  and the card carries the empty string where the message block would be.
\<close>

theorem empty_note_counterexample:
  "render_card toFixed_decimal Some
     \<lparr>id_tx = ''t1'', buyer_email = ''a@b.c'', buyer_note = Some [], item_price = 25 / 2,
      service_fee = 3 / 2, total_amount = 14, currency = ''NGN'', status = ''completed'',
      created_at = ''2024-01-05T10:00:00Z'', food_items = Some \<lparr>name = ''Jollof Rice''\<rparr>\<rparr>
   = Inr \<lparr>key = ''t1'', title = ''Jollof Rice'', badge = ''completed'',
           price_symbol = JString [CHR 0xE2, CHR 0x82, CHR 0xA6], price = ''12.50'',
           fee_symbol = JString [CHR 0xE2, CHR 0x82, CHR 0xA6], fee = ''1.50'',
           buyer = ''a@b.c'', date_text = ''2024-01-05T10:00:00Z'', note_child = EmptyText\<rparr>
   \<and> EmptyText \<noteq> NoteBlock (quoted [])"
  by code_simp

subsection \<open>The handlers\<close>

text \<open>
  C5. When the query answers with an error, the loader has issued the request, shown the
  toast "Failed to load transaction history" and logged the error, in this order, and the
  list it holds is the one it held before; on mount that is the empty list. Whatever the
  answer, the loading flag is false when the loader ends.
\<close>

theorem fetch_failure:
  "(error (backend (transactions_query uid)) = Some e \<longrightarrow>
      fetchTransactions backend uid st =
        ([Request (transactions_query uid),
          ToastError ''Failed to load transaction history'',
          ConsoleError e],
         st\<lparr>isLoading := False\<rparr>)
      \<and> transactions (snd (fetchTransactions backend uid st)) = transactions st)
   \<and> (error (backend (transactions_query (id_user (session_user s)))) = Some e' \<longrightarrow>
        transactions (snd (checkUser backend (Some s) initial_state)) = [])
   \<and> \<not> isLoading (snd (fetchTransactions backend uid st))"
  by (auto simp: fetchTransactions_def checkUser_def initial_state_def Let_def split: option.splits)

theorem fetch_failure_witness:
  "error ((\<lambda>q. \<lparr>data = None :: rat Transaction list option, error = Some ''timeout''\<rparr>)
            (transactions_query ''u1'')) = Some ''timeout''
   \<and> fetchTransactions (\<lambda>q. \<lparr>data = None :: rat Transaction list option, error = Some ''timeout''\<rparr>) ''u1''
        \<lparr>user = Some \<lparr>id_user = ''u1''\<rparr>, transactions = [], isLoading = True\<rparr>
      = ([Request (transactions_query ''u1''),
          ToastError ''Failed to load transaction history'',
          ConsoleError ''timeout''],
         \<lparr>user = Some \<lparr>id_user = ''u1''\<rparr>, transactions = [], isLoading = False\<rparr>)"
  using fetch_failure [of "\<lambda>q. \<lparr>data = None :: rat Transaction list option, error = Some ''timeout''\<rparr>"
      "''u1''" "''timeout''"
      "\<lparr>user = Some \<lparr>id_user = ''u1''\<rparr>, transactions = [], isLoading = True\<rparr>", THEN conjunct1]
  by simp

text \<open>
  C6. With no session, \<open>checkUser\<close> navigates to "/auth" and does nothing else: the
  state, and with it the user, is the one before, and no request is issued.
\<close>

theorem no_session_redirect:
  "checkUser backend None st = ([Navigate ''/auth''], st)
   \<and> filter is_request (fst (checkUser backend None st)) = []
   \<and> user (snd (checkUser backend None st)) = user st"
  by (simp add: checkUser_def)

theorem no_session_redirect_witness:
  "checkUser (\<lambda>q. \<lparr>data = Some [], error = None :: string option\<rparr>) None
      \<lparr>user = None, transactions = [] :: rat Transaction list, isLoading = True\<rparr>
     = ([Navigate ''/auth''], \<lparr>user = None, transactions = [], isLoading = True\<rparr>)"
  using no_session_redirect [of "\<lambda>q. \<lparr>data = Some [], error = None :: string option\<rparr>"
      "\<lparr>user = None, transactions = [] :: rat Transaction list, isLoading = True\<rparr>"]
  by simp

text \<open>
  C8. For every user identity the loader issues exactly one request. It reads the
  relation "transactions", filters on recipient_id equal to the identity and on status
  equal to "completed", sorts on created_at descending, and selects every column and
  the name of the food item reached through food_item_id.
\<close>

theorem loader_request:
  "filter is_request (fst (fetchTransactions backend uid st)) = [Request (transactions_query uid)]
   \<and> transactions_query uid =
       \<lparr>relation = ''transactions'', columns = select_literal,
        filters = [(''recipient_id'', uid), (''status'', ''completed'')],
        ordering = [(''created_at'', False)]\<rparr>
   \<and> cleaned_columns (transactions_query uid) = ''*,food_items:food_item_id(name)''"
proof -
  have q: "transactions_query uid =
       \<lparr>relation = ''transactions'', columns = select_literal,
        filters = [(''recipient_id'', uid), (''status'', ''completed'')],
        ordering = [(''created_at'', False)]\<rparr>"
    by (simp add: transactions_query_def order_by_def eq_filter_def select_cols_def from_table_def)
  have c: "filter (\<lambda>c. \<not> is_space c) select_literal = ''*,food_items:food_item_id(name)''"
    by code_simp
  have f: "filter is_request (fst (fetchTransactions backend uid st)) = [Request (transactions_query uid)]"
    by (simp add: fetchTransactions_def Let_def split: option.splits)
  from q c f show ?thesis by (simp add: cleaned_columns_def)
qed

theorem loader_request_witness:
  "filter is_request
     (fst (fetchTransactions (\<lambda>q. \<lparr>data = None :: rat Transaction list option, error = Some ''timeout''\<rparr>)
             ''u1'' \<lparr>user = Some \<lparr>id_user = ''u1''\<rparr>, transactions = [], isLoading = True\<rparr>))
   = [Request \<lparr>relation = ''transactions'', columns = select_literal,
               filters = [(''recipient_id'', ''u1''), (''status'', ''completed'')],
               ordering = [(''created_at'', False)]\<rparr>]"
  using loader_request [of "\<lambda>q. \<lparr>data = None :: rat Transaction list option, error = Some ''timeout''\<rparr>"
      "''u1''" "\<lparr>user = Some \<lparr>id_user = ''u1''\<rparr>, transactions = [], isLoading = True\<rparr>"]
  by simp

subsection \<open>The count, the title and the currencies\<close>

text \<open>
  C7. After a fetch that succeeded, whenever the page is drawn, the list the page holds
  is the returned rows (none when \<open>data\<close> is null), the count shown in the summary card
  is their number, and so is the number of cards when the list of cards is drawn.
\<close>

theorem total_gifts_count:
  "error (backend (transactions_query uid)) = None \<Longrightarrow>
   rows = (case data (backend (transactions_query uid)) of None \<Rightarrow> [] | Some d \<Rightarrow> d) \<Longrightarrow>
   render tf fmt (snd (fetchTransactions backend uid st)) = Inr v \<Longrightarrow>
     transactions (snd (fetchTransactions backend uid st)) = rows
     \<and> v ! 1 = Summary (length rows) (getCurrencySymbol (summary_currency rows))
                 (tf (getTotalReceived rows) 2)
     \<and> (\<forall>cs. v ! 2 = TransactionList cs \<longrightarrow> length cs = length rows)"
proof -
  assume e: "error (backend (transactions_query uid)) = None"
    and d: "rows = (case data (backend (transactions_query uid)) of None \<Rightarrow> [] | Some d \<Rightarrow> d)"
    and r: "render tf fmt (snd (fetchTransactions backend uid st)) = Inr v"
  let ?st = "snd (fetchTransactions backend uid st)"
  from e d have t: "transactions ?st = rows"
    by (simp add: fetchTransactions_def Let_def)
  from render_Inr [OF r] t obtain b where
    b: "render_body tf fmt ?st = Inr b" and
    v: "v = [Header ''/dashboard'', summary_card tf rows, b]"
    by auto
  have "length cs = length rows" if "b = TransactionList cs" for cs
    using b that t
    by (auto simp: render_body_def render_cards_length split: if_splits sum.splits)
  with t v show ?thesis
    by (simp add: summary_card_def)
qed

theorem total_gifts_count_witness:
  "render toFixed_decimal Some
     (snd (fetchTransactions
        (\<lambda>q. \<lparr>data = Some [\<lparr>id_tx = ''t2'', buyer_email = ''d@e.f'', buyer_note = None,
                             item_price = 1 / 4, service_fee = 1, total_amount = 5 / 4,
                             currency = ''EUR'', status = ''completed'',
                             created_at = ''2024-01-04T10:00:00Z'', food_items = None\<rparr>],
               error = None :: string option\<rparr>)
        ''u1'' \<lparr>user = Some \<lparr>id_user = ''u1''\<rparr>, transactions = [], isLoading = True\<rparr>))
   = Inr [Header ''/dashboard'',
          Summary 1 (JString [CHR 0xE2, CHR 0x82, CHR 0xAC]) ''0.25'',
          TransactionList
            [\<lparr>key = ''t2'', title = ''Gift Item'', badge = ''completed'',
              price_symbol = JString [CHR 0xE2, CHR 0x82, CHR 0xAC], price = ''0.25'',
              fee_symbol = JString [CHR 0xE2, CHR 0x82, CHR 0xAC], fee = ''1.00'',
              buyer = ''d@e.f'', date_text = ''2024-01-04T10:00:00Z'', note_child = NullChild\<rparr>]]
   \<and> transactions (snd (fetchTransactions
        (\<lambda>q. \<lparr>data = Some [\<lparr>id_tx = ''t2'', buyer_email = ''d@e.f'', buyer_note = None,
                             item_price = 1 / 4 :: rat, service_fee = 1, total_amount = 5 / 4,
                             currency = ''EUR'', status = ''completed'',
                             created_at = ''2024-01-04T10:00:00Z'', food_items = None\<rparr>],
               error = None :: string option\<rparr>)
        ''u1'' \<lparr>user = Some \<lparr>id_user = ''u1''\<rparr>, transactions = [], isLoading = True\<rparr>))
     = [\<lparr>id_tx = ''t2'', buyer_email = ''d@e.f'', buyer_note = None,
         item_price = 1 / 4, service_fee = 1, total_amount = 5 / 4,
         currency = ''EUR'', status = ''completed'',
         created_at = ''2024-01-04T10:00:00Z'', food_items = None\<rparr>]"
proof -
  let ?tx = "\<lparr>id_tx = ''t2'', buyer_email = ''d@e.f'', buyer_note = None,
              item_price = 1 / 4 :: rat, service_fee = 1, total_amount = 5 / 4,
              currency = ''EUR'', status = ''completed'',
              created_at = ''2024-01-04T10:00:00Z'', food_items = None\<rparr>"
  let ?backend = "\<lambda>q :: query. \<lparr>data = Some [?tx], error = None :: string option\<rparr>"
  let ?st = "\<lparr>user = Some \<lparr>id_user = ''u1''\<rparr>, transactions = [] :: rat Transaction list,
              isLoading = True\<rparr>"
  let ?v = "[Header ''/dashboard'',
          Summary 1 (JString [CHR 0xE2, CHR 0x82, CHR 0xAC]) ''0.25'',
          TransactionList
            [\<lparr>key = ''t2'', title = ''Gift Item'', badge = ''completed'',
              price_symbol = JString [CHR 0xE2, CHR 0x82, CHR 0xAC], price = ''0.25'',
              fee_symbol = JString [CHR 0xE2, CHR 0x82, CHR 0xAC], fee = ''1.00'',
              buyer = ''d@e.f'', date_text = ''2024-01-04T10:00:00Z'', note_child = NullChild\<rparr>]]"
  have e: "error (?backend (transactions_query ''u1'')) = None"
    by simp
  have d: "[?tx] = (case data (?backend (transactions_query ''u1'')) of None \<Rightarrow> [] | Some d \<Rightarrow> d)"
    by simp
  have r: "render toFixed_decimal Some (snd (fetchTransactions ?backend ''u1'' ?st)) = Inr ?v"
    by code_simp
  from total_gifts_count [OF e d r] r show ?thesis
    by blast
qed

text \<open>
  C9. A transaction without a food item has the title "Gift Item". Drawing its card does
  not fail on that account: the card is produced whenever the creation time formats, and
  whether a card is produced does not depend on the food item at all.
\<close>

theorem missing_food_item_title:
  "(food_items tx = None \<longrightarrow> card_title tx = ''Gift Item'')
   \<and> (food_items tx = None \<and> fmt (created_at tx) = Some d \<longrightarrow>
        (\<exists>c. render_card tf fmt tx = Inr c \<and> title c = ''Gift Item''))
   \<and> isl (render_card tf fmt (tx\<lparr>food_items := fi\<rparr>)) = isl (render_card tf fmt tx)"
  by (auto simp: render_card_def card_title_def split: option.splits)

theorem missing_food_item_title_witness:
  "food_items \<lparr>id_tx = ''t2'', buyer_email = ''d@e.f'', buyer_note = None,
               item_price = 1 / 4 :: rat, service_fee = 1, total_amount = 5 / 4,
               currency = ''EUR'', status = ''completed'',
               created_at = ''2024-01-04T10:00:00Z'', food_items = None\<rparr> = None
   \<and> render_card toFixed_decimal Some
        \<lparr>id_tx = ''t2'', buyer_email = ''d@e.f'', buyer_note = None,
         item_price = 1 / 4, service_fee = 1, total_amount = 5 / 4,
         currency = ''EUR'', status = ''completed'',
         created_at = ''2024-01-04T10:00:00Z'', food_items = None\<rparr>
     = Inr \<lparr>key = ''t2'', title = ''Gift Item'', badge = ''completed'',
             price_symbol = JString [CHR 0xE2, CHR 0x82, CHR 0xAC], price = ''0.25'',
             fee_symbol = JString [CHR 0xE2, CHR 0x82, CHR 0xAC], fee = ''1.00'',
             buyer = ''d@e.f'', date_text = ''2024-01-04T10:00:00Z'', note_child = NullChild\<rparr>"
proof -
  let ?tx = "\<lparr>id_tx = ''t2'', buyer_email = ''d@e.f'', buyer_note = None,
               item_price = 1 / 4 :: rat, service_fee = 1, total_amount = 5 / 4,
               currency = ''EUR'', status = ''completed'',
               created_at = ''2024-01-04T10:00:00Z'', food_items = None\<rparr>"
  let ?c = "\<lparr>key = ''t2'', title = card_title ?tx, badge = ''completed'',
             price_symbol = JString [CHR 0xE2, CHR 0x82, CHR 0xAC], price = ''0.25'',
             fee_symbol = JString [CHR 0xE2, CHR 0x82, CHR 0xAC], fee = ''1.00'',
             buyer = ''d@e.f'', date_text = ''2024-01-04T10:00:00Z'', note_child = NullChild\<rparr>"
  have r: "render_card toFixed_decimal Some ?tx = Inr ?c"
    by code_simp
  from missing_food_item_title [of ?tx Some "''2024-01-04T10:00:00Z''" toFixed_decimal None,
      THEN conjunct2, THEN conjunct1] r
  have "title ?c = ''Gift Item''"
    by simp
  with r show ?thesis by simp
qed

text \<open>
  C10. Relabelling the currencies of the transactions leaves the total as it is: the
  item prices are added as plain numbers. The summary card of a non-empty list shows
  the symbol of the first transaction's code, whatever the others are. A card shows
  its price and its fee with the symbol of its own code.
\<close>

theorem mixed_currency_total:
  "getTotalReceived (map (\<lambda>tx. tx\<lparr>currency := f tx\<rparr>) txs) = getTotalReceived txs
   \<and> summary_card tf (tx # rest) =
       Summary (Suc (length rest)) (getCurrencySymbol (currency tx))
         (tf (foldl (+) 0 (map item_price (tx # rest))) 2)
   \<and> (render_card tf fmt tx = Inr c \<longrightarrow>
        price_symbol c = getCurrencySymbol (currency tx) \<and> price c = tf (item_price tx) 2
        \<and> fee_symbol c = getCurrencySymbol (currency tx) \<and> fee c = tf (service_fee tx) 2)"
proof -
  have a: "getTotalReceived (map (\<lambda>tx. tx\<lparr>currency := f tx\<rparr>) txs) = getTotalReceived txs"
    by (simp add: getTotalReceived_foldl comp_def)
  have b: "summary_card tf (tx # rest) =
       Summary (Suc (length rest)) (getCurrencySymbol (currency tx))
         (tf (foldl (+) 0 (map item_price (tx # rest))) 2)"
    unfolding summary_card_def summary_symbol_first getTotalReceived_foldl by simp
  have c: "price_symbol c = getCurrencySymbol (currency tx) \<and> price c = tf (item_price tx) 2
        \<and> fee_symbol c = getCurrencySymbol (currency tx) \<and> fee c = tf (service_fee tx) 2"
    if "render_card tf fmt tx = Inr c"
    using that by (auto simp: render_card_def split: option.splits)
  from a b c show ?thesis by blast
qed

theorem mixed_currency_total_witness:
  "summary_card toFixed_decimal
     [\<lparr>id_tx = ''t3'', buyer_email = ''a@b.c'', buyer_note = None, item_price = 2,
       service_fee = 1 / 5, total_amount = 11 / 5, currency = ''USD'', status = ''completed'',
       created_at = ''2024-02-01T08:00:00Z'', food_items = None\<rparr>,
      \<lparr>id_tx = ''t4'', buyer_email = ''d@e.f'', buyer_note = None, item_price = 3,
       service_fee = 1 / 2, total_amount = 7 / 2, currency = ''NGN'', status = ''completed'',
       created_at = ''2024-01-31T08:00:00Z'', food_items = None\<rparr>]
   = Summary 2 (JString ''$'') ''5.00''
   \<and> render_card toFixed_decimal Some
       \<lparr>id_tx = ''t4'', buyer_email = ''d@e.f'', buyer_note = None, item_price = 3,
        service_fee = 1 / 2, total_amount = 7 / 2, currency = ''NGN'', status = ''completed'',
        created_at = ''2024-01-31T08:00:00Z'', food_items = None\<rparr>
     = Inr \<lparr>key = ''t4'', title = ''Gift Item'', badge = ''completed'',
             price_symbol = JString [CHR 0xE2, CHR 0x82, CHR 0xA6], price = ''3.00'',
             fee_symbol = JString [CHR 0xE2, CHR 0x82, CHR 0xA6], fee = ''0.50'',
             buyer = ''d@e.f'', date_text = ''2024-01-31T08:00:00Z'', note_child = NullChild\<rparr>"
proof -
  let ?t3 = "\<lparr>id_tx = ''t3'', buyer_email = ''a@b.c'', buyer_note = None, item_price = 2 :: rat,
       service_fee = 1 / 5, total_amount = 11 / 5, currency = ''USD'', status = ''completed'',
       created_at = ''2024-02-01T08:00:00Z'', food_items = None\<rparr>"
  let ?t4 = "\<lparr>id_tx = ''t4'', buyer_email = ''d@e.f'', buyer_note = None, item_price = 3 :: rat,
       service_fee = 1 / 2, total_amount = 7 / 2, currency = ''NGN'', status = ''completed'',
       created_at = ''2024-01-31T08:00:00Z'', food_items = None\<rparr>"
  let ?c = "\<lparr>key = ''t4'', title = ''Gift Item'', badge = ''completed'',
             price_symbol = JString [CHR 0xE2, CHR 0x82, CHR 0xA6], price = ''3.00'',
             fee_symbol = JString [CHR 0xE2, CHR 0x82, CHR 0xA6], fee = ''0.50'',
             buyer = ''d@e.f'', date_text = ''2024-01-31T08:00:00Z'', note_child = NullChild\<rparr>"
  have s: "getCurrencySymbol ''USD'' = JString ''$''"
    by (rule getCurrencySymbol_USD)
  have t: "toFixed_decimal 5 2 = ''5.00''"
    by code_simp
  have r: "render_card toFixed_decimal Some ?t4 = Inr ?c"
    by code_simp
  from mixed_currency_total [of "\<lambda>tx. ''USD''" "[?t3, ?t4]" toFixed_decimal ?t3 "[?t4]" Some ?c,
      THEN conjunct2, THEN conjunct1]
  have "summary_card toFixed_decimal [?t3, ?t4] = Summary 2 (JString ''$'') ''5.00''"
    by (simp add: s t)
  with r show ?thesis by simp
qed

end
